theory Spec2Isabelle
  imports Main
begin

section \<open>Python values and exceptions\<close>

text \<open>
  The module \<^verbatim>\<open>dask_cugraph.py\<close> is Python. Its strings are modelled as \<^typ>\<open>string\<close>,
  every character standing for the code point of the same number (code points below 256);
  its integers are unbounded and are modelled as \<^typ>\<open>int\<close>. An exception that leaves a
  function is the \<open>Inl\<close> branch of a sum.

  \<^item> \<open>ValueError\<close>: tuple unpacking of the wrong number of values and \<^verbatim>\<open>int()\<close> of a
    string that is no integer literal (both in \<^verbatim>\<open>parse_host_port\<close>);
  \<^item> \<open>IndexError\<close>: a list index out of range;
  \<^item> \<open>StopIteration\<close>: \<^verbatim>\<open>toolz.first\<close> of an empty sequence, which is
    \<^verbatim>\<open>next(iter(seq))\<close>;
  \<^item> \<open>KeyError\<close>: a dictionary subscript with a missing key;
  \<^item> \<open>TaskError\<close>: the exception of a task that failed on a worker, which
    \<^verbatim>\<open>Future.result()\<close> raises again in the client.
\<close>

datatype error = ValueError | IndexError | StopIteration | KeyError | TaskError

subsection \<open>String operations\<close>

text \<open>\<^verbatim>\<open>s.startswith(sep)\<close>.\<close>

definition startswith :: "string \<Rightarrow> string \<Rightarrow> bool" where
  "startswith s sep = (take (length sep) s = sep)"

text \<open>\<^verbatim>\<open>sep in s\<close>: some position of \<open>s\<close> starts an occurrence of \<open>sep\<close>.\<close>

fun contains :: "string \<Rightarrow> string \<Rightarrow> bool" where
  "contains sep [] = (sep = [])"
| "contains sep (c # cs) = (startswith (c # cs) sep \<or> contains sep cs)"

text \<open>
  \<^verbatim>\<open>s.rsplit(sep, 1)\<close> for a non-empty \<open>sep\<close>: the string is cut at the rightmost
  occurrence of \<open>sep\<close>, giving two pieces; without an occurrence the result is the
  one-element list of the whole string.
\<close>

fun rsplit1 :: "string \<Rightarrow> string \<Rightarrow> string list" where
  "rsplit1 sep [] = [ [] ]"
| "rsplit1 sep (c # cs) =
     (case rsplit1 sep cs of
        [h, t] \<Rightarrow> [c # h, t]
      | _ \<Rightarrow> if startswith (c # cs) sep then [ [], drop (length sep) (c # cs)]
             else [c # cs])"

text \<open>\<^verbatim>\<open>s.split(d)\<close> for a one-character separator: cut at every occurrence.\<close>

fun split_chr :: "char \<Rightarrow> string \<Rightarrow> string list" where
  "split_chr d [] = [ [] ]"
| "split_chr d (c # cs) =
     (if c = d then [] # split_chr d cs
      else (case split_chr d cs of
              p # ps \<Rightarrow> (c # p) # ps
            | [] \<Rightarrow> [ [c] ]))"

text \<open>
  \<^verbatim>\<open>int(s)\<close> of a string, base ten: white space is stripped from both ends, one sign
  may follow, and the rest must be groups of decimal digits joined by single underscores.
  Among the code points below 256 the white space that \<^verbatim>\<open>int\<close> strips is
  \<open>\t \n \v \f \r\<close>, the blank, U+0085 and U+00A0, and the decimal digits are \<open>0\<close> to \<open>9\<close>.
  \<open>None\<close> stands for the \<^verbatim>\<open>ValueError\<close> that \<^verbatim>\<open>int\<close> raises. (The interpreter of the
  module's time puts no bound on the number of digits.)
\<close>

definition py_isspace :: "char \<Rightarrow> bool" where
  "py_isspace c = ((of_char c :: nat) \<in> {9, 10, 11, 12, 13, 32, 133, 160})"

definition py_isdigit :: "char \<Rightarrow> bool" where
  "py_isdigit c = (48 \<le> (of_char c :: nat) \<and> (of_char c :: nat) \<le> 57)"

definition digit_val :: "char \<Rightarrow> int" where
  "digit_val c = int (of_char c) - 48"

definition py_strip :: "string \<Rightarrow> string" where
  "py_strip s = rev (dropWhile py_isspace (rev (dropWhile py_isspace s)))"

fun digits_ok :: "string \<Rightarrow> bool" where
  "digits_ok [] = False"
| "digits_ok [c] = py_isdigit c"
| "digits_ok (c # d # cs) =
     (py_isdigit c \<and> (if d = CHR ''_'' then digits_ok cs else digits_ok (d # cs)))"

definition digits_value :: "string \<Rightarrow> int" where
  "digits_value s = foldl (\<lambda>acc c. 10 * acc + digit_val c) 0 (filter (\<lambda>c. c \<noteq> CHR ''_'') s)"

definition py_int :: "string \<Rightarrow> int option" where
  "py_int s =
     (let t = py_strip s;
          neg = (t \<noteq> [] \<and> hd t = CHR ''-'');
          body = (if t \<noteq> [] \<and> (hd t = CHR ''-'' \<or> hd t = CHR ''+'') then tl t else t)
      in if digits_ok body
         then Some (if neg then - digits_value body else digits_value body)
         else None)"

section \<open>The address parser\<close>

text \<open>
  \<^verbatim>\<open>
  def parse_host_port(address):
      if '://' in address:
          address = address.rsplit('://', 1)[1]
      host, port = address.split(':')
      port = int(port)
      return host, port
  \<close>
  The unpacking \<^verbatim>\<open>host, port = ...\<close> raises \<^verbatim>\<open>ValueError\<close> unless the split gives
  exactly two pieces. \<open>strip_scheme\<close> is the \<^verbatim>\<open>if\<close> statement, \<open>parse_host_port\<close> the rest.
\<close>

definition strip_scheme :: "string \<Rightarrow> error + string" where
  "strip_scheme address =
     (if contains ''://'' address
      then (case rsplit1 ''://'' address of
              [h, t] \<Rightarrow> Inr t
            | _ \<Rightarrow> Inl IndexError)
      else Inr address)"

definition parse_host_port :: "string \<Rightarrow> error + (string \<times> int)" where
  "parse_host_port address =
     (case strip_scheme address of
        Inl e \<Rightarrow> Inl e
      | Inr address' \<Rightarrow>
          (case split_chr (CHR '':'') address' of
             [host, port] \<Rightarrow>
               (case py_int port of
                  None \<Rightarrow> Inl ValueError
                | Some n \<Rightarrow> Inr (host, n))
           | _ \<Rightarrow> Inl ValueError))"


section \<open>Scalars of the numeric library\<close>

text \<open>
  The reductions of the dataframe library return fixed-width scalars, not Python integers.
  The model takes the two id columns as \<^verbatim>\<open>int64\<close> columns, the default integer type of the
  dataframe library; the source does not fix the element type. Three kinds of scalar arise:
  \<^item> \<open>Int64 n\<close>: a 64-bit signed integer with the number \<open>n\<close>;
  \<^item> \<open>Float64 x\<close>: a double with the number \<open>x\<close>; the doubles that arise from \<^verbatim>\<open>int64\<close>
    numbers are whole numbers, so \<open>x\<close> is an integer that a double can hold;
  \<^item> \<open>NaN\<close>: the double not-a-number, which the maximum of an empty column is.
\<close>

datatype scalar = Int64 int | Float64 int | NaN

definition scalar_value :: "scalar \<Rightarrow> int option" where
  "scalar_value a = (case a of Int64 n \<Rightarrow> Some n | Float64 x \<Rightarrow> Some x | NaN \<Rightarrow> None)"

text \<open>Addition of 64-bit signed integers wraps around.\<close>

definition wrap64 :: "int \<Rightarrow> int" where
  "wrap64 n = (n + 2 ^ 63) mod 2 ^ 64 - 2 ^ 63"

text \<open>
  The conversion of an integer to a double, and the rounding of an exact result: a double
  has 53 significant bits, and a number with more bits is rounded to the nearest number
  with 53, to the one with an even last bit when two are equally near. \<open>excess_bits n\<close> is
  the number of bits of \<open>n\<close> beyond 53. (The numbers of the model are far below the range
  where a double overflows.)
\<close>

function excess_bits :: "int \<Rightarrow> nat" where
  "excess_bits n = (if n < 2 ^ 53 then 0 else Suc (excess_bits (n div 2)))"
  by pat_completeness auto
termination
  by (relation "measure nat") auto

definition round53 :: "int \<Rightarrow> int" where
  "round53 n =
     (let e = excess_bits n in
      if e = 0 then n
      else (let q = n div 2 ^ e; r = n mod 2 ^ e; h = 2 ^ (e - 1)
            in (if h < r \<or> (r = h \<and> odd q) then q + 1 else q) * 2 ^ e))"

definition to_float64 :: "int \<Rightarrow> int" where
  "to_float64 n = (if n < 0 then - round53 (- n) else round53 n)"

text \<open>
  The builtin \<^verbatim>\<open>max(a, b)\<close> returns \<open>b\<close> when \<^verbatim>\<open>b > a\<close> and \<open>a\<close> otherwise; a comparison
  with not-a-number is false.
\<close>

definition scalar_gt :: "scalar \<Rightarrow> scalar \<Rightarrow> bool" where
  "scalar_gt b a =
     (case (scalar_value b, scalar_value a) of
        (Some y, Some x) \<Rightarrow> x < y
      | _ \<Rightarrow> False)"

definition py_max :: "scalar \<Rightarrow> scalar \<Rightarrow> scalar" where
  "py_max a b = (if scalar_gt b a then b else a)"

text \<open>
  \<^verbatim>\<open>a + 1\<close>: on a 64-bit integer the sum wraps around, on a double the exact sum is rounded
  to a double, and not-a-number stays.
\<close>

definition plus_one :: "scalar \<Rightarrow> scalar" where
  "plus_one a =
     (case a of
        Int64 n \<Rightarrow> Int64 (wrap64 (n + 1))
      | Float64 x \<Rightarrow> Float64 (to_float64 (x + 1))
      | NaN \<Rightarrow> NaN)"

section \<open>Partitions, tasks and the cluster\<close>

text \<open>
  A materialised partition: the key of its future (\<^verbatim>\<open>str(part.key)\<close>) and its rows, of
  which the module reads the first two columns (\<^verbatim>\<open>ddf.columns[0]\<close>, the source vertex
  ids, and \<^verbatim>\<open>ddf.columns[1]\<close>, the destination vertex ids). The ids are the numbers of
  \<^verbatim>\<open>int64\<close> entries, from \<open>- 2 ^ 63\<close> to \<open>2 ^ 63 - 1\<close>.
\<close>

record partition =
  key :: string
  rows :: "(int \<times> int) list"

text \<open>
  The \<^verbatim>\<open>workers=[worker]\<close> argument of \<^verbatim>\<open>client.submit\<close>: \<^verbatim>\<open>_get_mg_info\<close> passes an
  address string of the worker registry, \<^verbatim>\<open>print_data\<close> passes the pair that
  \<^verbatim>\<open>parse_host_port\<close> returned.
\<close>

datatype worker_spec = Address string | Host_port "string \<times> int"

text \<open>
  The three functions the module submits, with their arguments. The second argument of
  \<^verbatim>\<open>_mg_pagerank\<close> is \<^verbatim>\<open>num_vertices\<close>, the scalar that the round computed.
\<close>

datatype call =
    Get_rank partition
  | Mg_pagerank partition scalar
  | Print_data partition

record task =
  func :: call
  workers :: worker_spec

text \<open>
  \<^verbatim>\<open>Future.status\<close>, as it is in the end: a future that stays \<open>Pending\<close> is one whose task
  never completes (its worker does not answer).
\<close>

datatype status = Pending | Finished | Erred

type_synonym future = "task \<times> status"

text \<open>What the client asks of the scheduler, in order.\<close>

datatype event = Submit task | Reduce_max nat

text \<open>
  The scheduler and its workers are collaborators of the module; the model takes what
  they answer as given:
  \<^item> \<open>who_has\<close>: \<^verbatim>\<open>client.who_has(parts).items()\<close>, the holders reported for each key, in
    the order of the dictionary;
  \<^item> \<open>has_what\<close>: \<^verbatim>\<open>list(client.has_what().keys())\<close>, the addresses of the worker
    registry;
  \<^item> \<open>comm_rank\<close>: what \<^verbatim>\<open>MPI.COMM_WORLD.Get_rank()\<close> returns in the process of the worker
    that a pinned task runs on;
  \<^item> \<open>outcome\<close>: the status that the future of a submitted task ends in.
\<close>

record cluster =
  who_has :: "string list \<Rightarrow> (string \<times> string list) list"
  has_what :: "string list"
  comm_rank :: "worker_spec \<Rightarrow> int"
  outcome :: "task \<Rightarrow> status"

text \<open>\<^verbatim>\<open>dict(pairs)\<close>: a later pair replaces an earlier one with the same key.\<close>

definition dict :: "('k \<times> 'v) list \<Rightarrow> ('k \<rightharpoonup> 'v)" where
  "dict kvs = foldl (\<lambda>m (k, v). m(k \<mapsto> v)) Map.empty kvs"

text \<open>\<^verbatim>\<open>toolz.first(seq)\<close> is \<^verbatim>\<open>next(iter(seq))\<close>.\<close>

definition first :: "'a list \<Rightarrow> error + 'a" where
  "first seq = (case seq of [] \<Rightarrow> Inl StopIteration | a # _ \<Rightarrow> Inr a)"

text \<open>
  \<^verbatim>\<open>client.submit(f, *args, workers=[worker])\<close> returns the future of the task;
  \<^verbatim>\<open>wait(futures)\<close> returns once no future is pending and raises nothing for a future
  that ended in error; without a timeout it does not return while one is pending.
\<close>

definition submit :: "cluster \<Rightarrow> call \<Rightarrow> worker_spec \<Rightarrow> future" where
  "submit c f w = (\<lparr>func = f, workers = w\<rparr>, outcome c \<lparr>func = f, workers = w\<rparr>)"

definition wait :: "future list \<Rightarrow> unit option" where
  "wait fs = (if list_all (\<lambda>fut. snd fut \<noteq> Pending) fs then Some () else None)"

section \<open>The functions that run on a worker\<close>

text \<open>
  \<^verbatim>\<open>
  def get_rank(l):
      from mpi4py import MPI
      comm = MPI.COMM_WORLD
      rank = comm.Get_rank()
      return rank
  \<close>
  The rank of the process in \<^verbatim>\<open>MPI.COMM_WORLD\<close> is state of the worker process; it is the
  first argument of the model. The other two functions, \<^verbatim>\<open>_mg_pagerank\<close> and
  \<^verbatim>\<open>_print_data\<close>, call the graph library and print; the module never reads what they
  return, and the model keeps of them only the status their futures end in.
\<close>

definition get_rank :: "int \<Rightarrow> partition \<Rightarrow> int" where
  "get_rank comm_world_rank l = comm_world_rank"

section \<open>The round: \<^verbatim>\<open>_get_mg_info\<close>\<close>

text \<open>
  \<^verbatim>\<open>
  worker_map = []
  for key, workers in who_has.items():
      worker = parse_host_port(first(workers))
      worker_map.append((worker, key_to_part_dict[key]))
  \<close>
\<close>

fun worker_map :: "(string \<rightharpoonup> partition) \<Rightarrow> (string \<times> string list) list
    \<Rightarrow> error + ((string \<times> int) \<times> partition) list" where
  "worker_map key_to_part_dict [] = Inr []"
| "worker_map key_to_part_dict ((k, holders) # rest) =
     (case first holders of
        Inl e \<Rightarrow> Inl e
      | Inr address \<Rightarrow>
         (case parse_host_port address of
            Inl e \<Rightarrow> Inl e
          | Inr worker \<Rightarrow>
             (case key_to_part_dict k of
                None \<Rightarrow> Inl KeyError
              | Some part \<Rightarrow>
                 (case worker_map key_to_part_dict rest of
                    Inl e \<Rightarrow> Inl e
                  | Inr wm \<Rightarrow> Inr ((worker, part) # wm)))))"

text \<open>
  \<^verbatim>\<open>
  worker_ranks = [(client.submit(get_rank, p, workers=[worker]).result(), worker)
                  for p, worker in zip(parts, x)]
  \<close>
  Each query is submitted and waited for before the next one is submitted;
  \<^verbatim>\<open>result()\<close> has no timeout, so a query that stays pending stops the round there
  (\<open>None\<close>). The first component is what was submitted.
\<close>

fun worker_ranks :: "cluster \<Rightarrow> (partition \<times> string) list
    \<Rightarrow> event list \<times> (error + (int \<times> string) list) option" where
  "worker_ranks c [] = ([], Some (Inr []))"
| "worker_ranks c ((p, worker) # rest) =
     (let fut = submit c (Get_rank p) (Address worker) in
      case snd fut of
        Pending \<Rightarrow> ([Submit (fst fut)], None)
      | Erred \<Rightarrow> ([Submit (fst fut)], Some (Inl TaskError))
      | Finished \<Rightarrow>
         (case worker_ranks c rest of
            (log, None) \<Rightarrow> (Submit (fst fut) # log, None)
          | (log, Some (Inl e)) \<Rightarrow> (Submit (fst fut) # log, Some (Inl e))
          | (log, Some (Inr wr)) \<Rightarrow>
              (Submit (fst fut) # log,
               Some (Inr ((get_rank (comm_rank c (Address worker)) p, worker) # wr)))))"

text \<open>
  \<^verbatim>\<open>
  parts_to_worker_map = []
  for i,part in enumerate(parts):
      parts_to_worker_map.append((part, rank_to_worker_dict[i]))
  \<close>
\<close>

fun parts_to_worker_map :: "(int \<rightharpoonup> string) \<Rightarrow> (nat \<times> partition) list
    \<Rightarrow> error + (partition \<times> string) list" where
  "parts_to_worker_map rank_to_worker_dict [] = Inr []"
| "parts_to_worker_map rank_to_worker_dict ((i, part) # rest) =
     (case rank_to_worker_dict (int i) of
        None \<Rightarrow> Inl KeyError
      | Some worker \<Rightarrow>
         (case parts_to_worker_map rank_to_worker_dict rest of
            Inl e \<Rightarrow> Inl e
          | Inr pw \<Rightarrow> Inr ((part, worker) # pw)))"

text \<open>
  \<^verbatim>\<open>ddf[ddf.columns[j]].max().compute()\<close>: the collaborator's reduction. It takes the
  maximum of the column in every partition (\<open>chunk_max\<close>): a 64-bit integer, and
  not-a-number for a partition without rows. It then collects these scalars in one series
  and takes its maximum, passing over not-a-number (\<open>agg_max\<close>). A series of 64-bit integers
  only stays such a series and its maximum is a 64-bit integer; with a not-a-number among
  them the series is a series of doubles, every integer is converted to a double, and the
  maximum is a double, or not-a-number when nothing else is there. (For many partitions
  the library collects in several steps; the result is the same.)
\<close>

definition chunk_max :: "int list \<Rightarrow> scalar" where
  "chunk_max xs = (case xs of [] \<Rightarrow> NaN | x # r \<Rightarrow> Int64 (fold max r x))"

fun int64s :: "scalar list \<Rightarrow> int list option" where
  "int64s [] = Some []"
| "int64s (Int64 n # ms) = map_option ((#) n) (int64s ms)"
| "int64s (m # ms) = None"

definition as_float :: "scalar \<Rightarrow> int option" where
  "as_float a = (case a of Int64 n \<Rightarrow> Some (to_float64 n) | Float64 x \<Rightarrow> Some x | NaN \<Rightarrow> None)"

definition somes :: "int option list \<Rightarrow> int list" where
  "somes ms = concat (map (\<lambda>m. case m of None \<Rightarrow> [] | Some v \<Rightarrow> [v]) ms)"

definition agg_max :: "scalar list \<Rightarrow> scalar" where
  "agg_max ms =
     (case int64s ms of
        Some (x # r) \<Rightarrow> Int64 (fold max r x)
      | _ \<Rightarrow>
         (case somes (map as_float ms) of
            [] \<Rightarrow> NaN
          | x # r \<Rightarrow> Float64 (fold max r x)))"

definition column_max :: "((int \<times> int) \<Rightarrow> int) \<Rightarrow> partition list \<Rightarrow> scalar" where
  "column_max col parts = agg_max (map (\<lambda>part. chunk_max (map col (rows part))) parts)"

text \<open>
  \<^verbatim>\<open>
  max_node_src_col = ddf[ddf.columns[0]].max().compute()
  max_node_dest_col = ddf[ddf.columns[1]].max().compute()
  num_vertices = max(max_node_src_col,max_node_dest_col) + 1
  \<close>
\<close>

definition num_vertices :: "partition list \<Rightarrow> scalar" where
  "num_vertices parts =
     (let max_node_src_col = column_max fst parts;
          max_node_dest_col = column_max snd parts
      in plus_one (py_max max_node_src_col max_node_dest_col))"

text \<open>
  \<^verbatim>\<open>
  def _get_mg_info(ddf):
      client = default_client()
      if isinstance(ddf, dd.DataFrame):
          parts = ddf.to_delayed()
          parts = client.compute(parts)
          wait(parts)
      key_to_part_dict = dict([(str(part.key), part) for part in parts])
      who_has = client.who_has(parts)
      x = list(client.has_what().keys())
      worker_map = ...
      worker_ranks = ...
      rank_to_worker_dict = dict(worker_ranks)
      parts_to_worker_map = ...
      max_node_src_col = ...; max_node_dest_col = ...; num_vertices = ...
      gpu_futures = [client.submit(_mg_pagerank, part, num_vertices, workers=[worker])
                     for part, worker in parts_to_worker_map]
      wait(gpu_futures)
      return gpu_futures
  \<close>
  The argument of the model is the list of the materialised partitions of \<^verbatim>\<open>ddf\<close> (for
  an argument that is no dask dataframe the name \<^verbatim>\<open>parts\<close> is unbound; the type of the
  model excludes it). The
  result is the list of what the client submitted and computed, and what the caller gets:
  \<open>None\<close> when the call never returns, \<open>Some (Inl e)\<close> when it raises, \<open>Some (Inr futures)\<close>
  when it returns.
\<close>

definition get_mg_info :: "cluster \<Rightarrow> partition list
    \<Rightarrow> event list \<times> (error + future list) option" where
  "get_mg_info c parts =
     (let key_to_part_dict = dict (map (\<lambda>part. (key part, part)) parts);
          x = has_what c
      in case worker_map key_to_part_dict (who_has c (map key parts)) of
           Inl e \<Rightarrow> ([], Some (Inl e))
         | Inr wm \<Rightarrow>
            (case worker_ranks c (zip parts x) of
               (log, None) \<Rightarrow> (log, None)
             | (log, Some (Inl e)) \<Rightarrow> (log, Some (Inl e))
             | (log, Some (Inr wr)) \<Rightarrow>
                (case parts_to_worker_map (dict wr) (enumerate 0 parts) of
                   Inl e \<Rightarrow> (log, Some (Inl e))
                 | Inr pw \<Rightarrow>
                    (let gpu_futures =
                           map (\<lambda>(part, worker).
                                  submit c (Mg_pagerank part (num_vertices parts)) (Address worker)) pw;
                         log' = log @ [Reduce_max 0, Reduce_max 1] @ map (\<lambda>fut. Submit (fst fut)) gpu_futures
                     in case wait gpu_futures of
                          None \<Rightarrow> (log', None)
                        | Some u \<Rightarrow> (log', Some (Inr gpu_futures))))))"

text \<open>
  \<^verbatim>\<open>
  def print_data(ddf):
      ...
      worker_map = ...
      gpu_futures = [client.submit(_print_data, part,workers=[worker]) for worker, part in worker_map]
      wait(gpu_futures)
      return gpu_futures
  \<close>
\<close>

definition print_data :: "cluster \<Rightarrow> partition list
    \<Rightarrow> event list \<times> (error + future list) option" where
  "print_data c parts =
     (let key_to_part_dict = dict (map (\<lambda>part. (key part, part)) parts)
      in case worker_map key_to_part_dict (who_has c (map key parts)) of
           Inl e \<Rightarrow> ([], Some (Inl e))
         | Inr wm \<Rightarrow>
            (let gpu_futures =
                   map (\<lambda>(worker, part). submit c (Print_data part) (Host_port worker)) wm;
                 log = map (\<lambda>fut. Submit (fst fut)) gpu_futures
             in case wait gpu_futures of
                  None \<Rightarrow> (log, None)
                | Some u \<Rightarrow> (log, Some (Inr gpu_futures))))"


section \<open>The address parser as the specification words it\<close>

text \<open>
  This definition follows the words of the specification, not the source: the suffix after
  the scheme separator is cut at the first colon from the right, the port is a non-negative
  decimal number, and the parse fails when no colon is present or the port segment is not
  numeric. It is only compared with \<^const>\<open>parse_host_port\<close>.
\<close>

definition parse_host_port_spec :: "string \<Rightarrow> error + (string \<times> int)" where
  "parse_host_port_spec address =
     (let a = (case strip_scheme address of Inl e \<Rightarrow> address | Inr t \<Rightarrow> t);
          port = rev (takeWhile (\<lambda>c. c \<noteq> CHR '':'') (rev a));
          host = take (length a - length port - 1) a
      in if CHR '':'' \<in> set a \<and> port \<noteq> [] \<and> list_all py_isdigit port
         then Inr (host, digits_value port)
         else Inl ValueError)"

section \<open>The vertex count as the specification words it\<close>



section \<open>Names for the steps of a round\<close>

text \<open>
  The locality step of \<^verbatim>\<open>_get_mg_info\<close> and of \<^verbatim>\<open>print_data\<close>: the list \<^verbatim>\<open>worker_map\<close>
  built from the data-location report for the partitions.
\<close>

definition locality :: "cluster \<Rightarrow> partition list
    \<Rightarrow> error + ((string \<times> int) \<times> partition) list" where
  "locality c parts =
     worker_map (dict (map (\<lambda>part. (key part, part)) parts)) (who_has c (map key parts))"

text \<open>The task \<^verbatim>\<open>client.submit(get_rank, p, workers=[worker])\<close>.\<close>

definition rank_query :: "partition \<times> string \<Rightarrow> task" where
  "rank_query pw = \<lparr>func = Get_rank (fst pw), workers = Address (snd pw)\<rparr>"

text \<open>The task \<^verbatim>\<open>client.submit(_mg_pagerank, part, num_vertices, workers=[worker])\<close>.\<close>

definition compute_task :: "partition list \<Rightarrow> partition \<times> string \<Rightarrow> task" where
  "compute_task parts pw =
     \<lparr>func = Mg_pagerank (fst pw) (num_vertices parts), workers = Address (snd pw)\<rparr>"

text \<open>The task \<^verbatim>\<open>client.submit(_print_data, part, workers=[worker])\<close>.\<close>

definition print_task :: "(string \<times> int) \<times> partition \<Rightarrow> task" where
  "print_task wp = \<lparr>func = Print_data (snd wp), workers = Host_port (fst wp)\<rparr>"

section \<open>Example rounds\<close>

text \<open>
  Two partitions of a graph with the vertices \<open>0\<close> to \<open>3\<close>, and the same graph in one
  partition.
\<close>

definition part_a :: partition where
  "part_a = \<lparr>key = ''a'', rows = [(0, 1), (1, 2)]\<rparr>"

definition part_b :: partition where
  "part_b = \<lparr>key = ''b'', rows = [(2, 3)]\<rparr>"

definition part_whole :: partition where
  "part_whole = \<lparr>key = ''ab'', rows = [(0, 1), (1, 2), (2, 3)]\<rparr>"

text \<open>
  Two workers; the first holds \<open>part_a\<close> and has rank 0, the second holds \<open>part_b\<close> and has
  rank 1; every task finishes.
\<close>

definition cluster_ab :: cluster where
  "cluster_ab =
     \<lparr>who_has = (\<lambda>keys. [(''a'', [''tcp://10.0.0.1:8786'']), (''b'', [''tcp://10.0.0.2:8786''])]),
      has_what = [''tcp://10.0.0.1:8786'', ''tcp://10.0.0.2:8786''],
      comm_rank = (\<lambda>w. if w = Address ''tcp://10.0.0.2:8786'' then 1 else 0),
      outcome = (\<lambda>t. Finished)\<rparr>"

text \<open>The same workers, each holding the other partition.\<close>

definition cluster_swapped :: cluster where
  "cluster_swapped =
     cluster_ab\<lparr>who_has :=
       (\<lambda>keys. [(''a'', [''tcp://10.0.0.2:8786'']), (''b'', [''tcp://10.0.0.1:8786''])])\<rparr>"

text \<open>The second partition has no holder.\<close>

definition cluster_lost :: cluster where
  "cluster_lost =
     cluster_ab\<lparr>who_has := (\<lambda>keys. [(''a'', [''tcp://10.0.0.1:8786'']), (''b'', [])])\<rparr>"

text \<open>
  The second partition has no holder, and the holder of the first one listens on an IPv6
  address.
\<close>

definition cluster_ipv6_lost :: cluster where
  "cluster_ipv6_lost =
     cluster_ab\<lparr>who_has := (\<lambda>keys. [(''a'', [''tcp://[::1]:8786'']), (''b'', [])])\<rparr>"

text \<open>The second worker never answers its rank query.\<close>

definition cluster_silent :: cluster where
  "cluster_silent =
     cluster_ab\<lparr>outcome :=
       (\<lambda>t. if t = rank_query (part_b, ''tcp://10.0.0.2:8786'') then Pending else Finished)\<rparr>"

text \<open>The compute task of the second partition fails on its worker.\<close>

definition cluster_failing :: cluster where
  "cluster_failing =
     cluster_ab\<lparr>outcome :=
       (\<lambda>t. if t = compute_task [part_a, part_b] (part_b, ''tcp://10.0.0.2:8786'') then Erred
            else Finished)\<rparr>"

text \<open>
  Three workers with the ranks 0, 1 and 2; the registry lists the worker of rank 2 first.
\<close>

definition cluster_three :: cluster where
  "cluster_three =
     \<lparr>who_has = (\<lambda>keys. [(''a'', [''tcp://10.0.0.3:8786'']), (''b'', [''tcp://10.0.0.1:8786''])]),
      has_what = [''tcp://10.0.0.3:8786'', ''tcp://10.0.0.1:8786'', ''tcp://10.0.0.2:8786''],
      comm_rank = (\<lambda>w. if w = Address ''tcp://10.0.0.3:8786'' then 2
                        else if w = Address ''tcp://10.0.0.2:8786'' then 1 else 0),
      outcome = (\<lambda>t. Finished)\<rparr>"

text \<open>The print task of the second partition fails on its worker.\<close>

definition cluster_print_failing :: cluster where
  "cluster_print_failing =
     cluster_ab\<lparr>outcome :=
       (\<lambda>t. if t = print_task ((''10.0.0.2'', 8786), part_b) then Erred else Finished)\<rparr>"




section \<open>Properties of the string operations\<close>

lemma length_split_chr: "length (split_chr d s) = Suc (count_list s d)"
  by (induction s) (auto split: list.splits)

lemma split_chr_notin: "d \<notin> set s \<Longrightarrow> split_chr d s = [s]"
  by (induction s) auto

lemma split_chr_two:
  "count_list s d = 1 \<Longrightarrow>
   split_chr d s = [takeWhile (\<lambda>c. c \<noteq> d) s, tl (dropWhile (\<lambda>c. c \<noteq> d) s)]"
proof (induction s)
  case Nil
  then show ?case by simp
next
  case (Cons c s)
  show ?case
  proof (cases "c = d")
    case True
    with Cons.prems have "count_list s d = 0" by simp
    then have "d \<notin> set s" by (simp add: count_list_0_iff)
    with True show ?thesis by (simp add: split_chr_notin)
  next
    case False
    with Cons show ?thesis by simp
  qed
qed

lemma contains_append: "contains sep s \<Longrightarrow> contains sep (p @ s)"
  by (induction p) auto

lemma contains_drop: "contains sep (drop n s) \<Longrightarrow> contains sep s"
  using contains_append [of sep "drop n s" "take n s"] by simp


lemma rsplit1_none: "\<not> contains sep s \<Longrightarrow> rsplit1 sep s = [s]"
  by (induction s) (auto split: list.splits)

lemma rsplit1_some:
  "sep \<noteq> [] \<Longrightarrow> contains sep s \<Longrightarrow>
     \<exists>h t. rsplit1 sep s = [h, t] \<and> s = h @ sep @ t \<and> \<not> contains sep t"
proof (induction s)
  case Nil
  then show ?case by simp
next
  case (Cons c cs)
  show ?case
  proof (cases "contains sep cs")
    case True
    with Cons obtain h t where "rsplit1 sep cs = [h, t]" "cs = h @ sep @ t" "\<not> contains sep t"
      by blast
    then show ?thesis by simp
  next
    case False
    with Cons.prems have sw: "startswith (c # cs) sep" by simp
    from False have r: "rsplit1 sep cs = [cs]" by (rule rsplit1_none)
    have "c # cs = sep @ drop (length sep) (c # cs)"
      using sw append_take_drop_id [of "length sep" "c # cs"] by (simp add: startswith_def)
    moreover have "\<not> contains sep (drop (length sep) (c # cs))"
    proof
      assume "contains sep (drop (length sep) (c # cs))"
      moreover from Cons.prems(1) have "drop (length sep) (c # cs) = drop (length sep - 1) cs"
        by (cases sep) simp_all
      ultimately show False using False contains_drop by metis
    qed
    ultimately show ?thesis using r sw by simp
  qed
qed



lemma strip_scheme_total: "\<exists>a. strip_scheme address = Inr a"
  using rsplit1_some [of "''://''" address] by (auto simp: strip_scheme_def)


lemma digit_not_space: "py_isdigit c \<Longrightarrow> \<not> py_isspace c"
  by (auto simp: py_isdigit_def py_isspace_def)

lemma digit_not_special:
  "py_isdigit c \<Longrightarrow> c \<noteq> CHR ''_'' \<and> c \<noteq> CHR ''-'' \<and> c \<noteq> CHR ''+''"
  by (auto simp: py_isdigit_def)

lemma py_strip_digits:
  assumes "s \<noteq> []" "\<forall>c\<in>set s. py_isdigit c"
  shows "py_strip s = s"
proof -
  from assms have "\<not> py_isspace (hd s)" "\<not> py_isspace (last s)"
    by (simp_all add: digit_not_space)
  with assms(1) have "dropWhile py_isspace s = s"
    by (simp add: dropWhile_eq_self_iff)
  moreover from assms(1) \<open>\<not> py_isspace (last s)\<close> have "dropWhile py_isspace (rev s) = rev s"
    by (simp add: dropWhile_eq_self_iff hd_rev)
  ultimately show ?thesis by (simp add: py_strip_def)
qed

lemma digits_ok_all: "s \<noteq> [] \<Longrightarrow> \<forall>c\<in>set s. py_isdigit c \<Longrightarrow> digits_ok s"
  by (induction s rule: digits_ok.induct) (auto simp: digit_not_special)

lemma foldl_digits_nonneg:
  "0 \<le> a \<Longrightarrow> \<forall>c\<in>set s. py_isdigit c \<Longrightarrow> 0 \<le> foldl (\<lambda>acc c. 10 * acc + digit_val c) a s"
proof (induction s arbitrary: a)
  case Nil
  then show ?case by simp
next
  case (Cons c s)
  from Cons.prems have "0 \<le> 10 * a + digit_val c"
    by (simp add: digit_val_def py_isdigit_def)
  with Cons show ?case by simp
qed

lemma py_int_digits:
  assumes "s \<noteq> []" "\<forall>c\<in>set s. py_isdigit c"
  shows "py_int s = Some (digits_value s) \<and> 0 \<le> digits_value s"
proof -
  from assms have "hd s \<noteq> CHR ''-''" "hd s \<noteq> CHR ''+''"
    using digit_not_special [of "hd s"] by simp_all
  moreover have "0 \<le> digits_value s"
    unfolding digits_value_def using assms(2) by (intro foldl_digits_nonneg) simp_all
  ultimately show ?thesis
    using assms by (simp add: py_int_def py_strip_digits digits_ok_all)
qed







section \<open>The address parser: claims C7 and C8\<close>

text \<open>
  Claim C7, as the specification states it, fails on the code. The address of a worker
  that listens on an IPv6 address has a colon and a numeric segment after its last colon,
  so the parser of the specification returns host \<open>[::1]\<close> and port \<open>8786\<close>; the code
  splits at every colon, gets four pieces and raises \<^verbatim>\<open>ValueError\<close>.
\<close>

theorem parse_host_port_two_colons:
  "parse_host_port ''tcp://[::1]:8786'' = Inl ValueError
   \<and> parse_host_port_spec ''tcp://[::1]:8786'' = Inr (''[::1]'', 8786)"
  by code_simp

text \<open>
  Claim C7, amended to what the code does. For every worker identifier string, the parser
  takes the suffix \<open>a\<close> after the last \<open>://\<close> (the whole string when there is none), and
  succeeds exactly when \<open>a\<close> has exactly one colon and \<^verbatim>\<open>int()\<close> accepts what follows it;
  then the host is what precedes the colon and the port is the number \<^verbatim>\<open>int()\<close> gives. In
  every other case it raises \<^verbatim>\<open>ValueError\<close>. A port segment of decimal digits only is
  accepted and gives a non-negative port.
\<close>

theorem parse_host_port_characterised:
  "\<exists>a. strip_scheme address = Inr a
     \<and> (if contains ''://'' address
        then (\<exists>pre. address = pre @ ''://'' @ a) \<and> \<not> contains ''://'' a
        else a = address)
     \<and> parse_host_port address =
         (if count_list a (CHR '':'') = 1
          then (case py_int (tl (dropWhile (\<lambda>c. c \<noteq> CHR '':'') a)) of
                  None \<Rightarrow> Inl ValueError
                | Some p \<Rightarrow> Inr (takeWhile (\<lambda>c. c \<noteq> CHR '':'') a, p))
          else Inl ValueError)
     \<and> (port \<noteq> [] \<and> list_all py_isdigit port
          \<longrightarrow> py_int port = Some (digits_value port) \<and> 0 \<le> digits_value port)"
proof -
  obtain a where a: "strip_scheme address = Inr a"
    using strip_scheme_total by blast
  have shape: "if contains ''://'' address
        then (\<exists>pre. address = pre @ ''://'' @ a) \<and> \<not> contains ''://'' a
        else a = address"
  proof (cases "contains ''://'' address")
    case True
    then obtain h t where "rsplit1 ''://'' address = [h, t]" "address = h @ ''://'' @ t"
      "\<not> contains ''://'' t"
      using rsplit1_some [of "''://''" address] by auto
    with True a show ?thesis by (auto simp: strip_scheme_def)
  next
    case False
    with a show ?thesis by (simp add: strip_scheme_def)
  qed
  have parse: "parse_host_port address =
         (if count_list a (CHR '':'') = 1
          then (case py_int (tl (dropWhile (\<lambda>c. c \<noteq> CHR '':'') a)) of
                  None \<Rightarrow> Inl ValueError
                | Some p \<Rightarrow> Inr (takeWhile (\<lambda>c. c \<noteq> CHR '':'') a, p))
          else Inl ValueError)"
  proof (cases "count_list a (CHR '':'') = 1")
    case True
    then show ?thesis by (simp add: parse_host_port_def a split_chr_two)
  next
    case False
    then have "length (split_chr (CHR '':'') a) \<noteq> 2" by (simp add: length_split_chr)
    then have "\<And>h p. split_chr (CHR '':'') a \<noteq> [h, p]" by auto
    with False show ?thesis
      by (auto simp: parse_host_port_def a split: list.splits)
  qed
  have digits: "port \<noteq> [] \<and> list_all py_isdigit port
          \<longrightarrow> py_int port = Some (digits_value port) \<and> 0 \<le> digits_value port"
    using py_int_digits [of port] by (simp add: list_all_iff)
  from a shape parse digits show ?thesis by blast
qed

text \<open>
  Claim C7, the amended statement at the address \<open>tcp://10.0.0.5:8786\<close> and the port
  segment \<open>8786\<close>.
\<close>

theorem parse_host_port_characterised_witness:
  "parse_host_port ''tcp://10.0.0.5:8786'' = Inr (''10.0.0.5'', 8786)
   \<and> ''8786'' \<noteq> [] \<and> list_all py_isdigit ''8786''
   \<and> py_int ''8786'' = Some 8786 \<and> (0::int) \<le> 8786"
proof -
  have h: "''8786'' \<noteq> [] \<and> list_all py_isdigit ''8786''"
    by (simp add: py_isdigit_def)
  have v: "digits_value ''8786'' = 8786"
    by (simp add: digits_value_def digit_val_def)
  from parse_host_port_characterised [of "''tcp://10.0.0.5:8786''" "''8786''"] h
  have "py_int ''8786'' = Some (digits_value ''8786'') \<and> 0 \<le> digits_value ''8786''"
    by blast
  moreover have "parse_host_port ''tcp://10.0.0.5:8786'' = Inr (''10.0.0.5'', 8786)"
    by code_simp
  ultimately show ?thesis using h v by simp
qed



section \<open>Properties of the steps of a round\<close>

lemma foldl_upd_map_of:
  "foldl (\<lambda>m (k, v). m(k \<mapsto> v)) m kvs = m ++ map_of (rev kvs)"
proof (induction kvs arbitrary: m)
  case Nil
  show ?case by simp
next
  case (Cons kv kvs)
  obtain k v where kv: "kv = (k, v)" by (cases kv)
  have "foldl (\<lambda>m (k, v). m(k \<mapsto> v)) m (kv # kvs) =
      foldl (\<lambda>m (k, v). m(k \<mapsto> v)) (m(k \<mapsto> v)) kvs"
    by (simp only: kv foldl.simps prod.case)
  also have "\<dots> = m(k \<mapsto> v) ++ map_of (rev kvs)" by (rule Cons)
  also have "\<dots> = m ++ (map_of [(k, v)] ++ map_of (rev kvs))"
    by (simp add: fun_eq_iff map_add_def split: option.splits)
  also have "\<dots> = m ++ map_of (rev (kv # kvs))" by (simp add: kv)
  finally show ?case .
qed

lemma dict_map_of: "dict kvs = map_of (rev kvs)"
  by (simp add: dict_def foldl_upd_map_of)

lemma dom_dict: "dom (dict kvs) = fst ` set kvs"
  by (simp add: dict_map_of dom_map_of_conv_image_fst)

lemma dict_Some_mem: "dict kvs k = Some v \<Longrightarrow> (k, v) \<in> set kvs"
  using map_of_SomeD [of "rev kvs" k v] by (simp add: dict_map_of)


lemma worker_map_zero_holders:
  "worker_map d (pre @ (k, []) # post) =
     (case worker_map d pre of Inl e \<Rightarrow> Inl e | Inr wm \<Rightarrow> Inl StopIteration)"
  by (induction pre) (auto simp: first_def split: sum.splits list.splits option.splits)

lemma worker_ranks_log:
  "set (fst (worker_ranks c zs)) \<subseteq> (\<lambda>pw. Submit (rank_query pw)) ` set zs"
proof (induction zs)
  case Nil
  show ?case by simp
next
  case (Cons pw zs)
  obtain p w where pw: "pw = (p, w)" by (cases pw)
  obtain log r where lr: "worker_ranks c zs = (log, r)" by (cases "worker_ranks c zs")
  with Cons have "set log \<subseteq> (\<lambda>pw. Submit (rank_query pw)) ` set zs" by simp
  then show ?case
    by (cases "outcome c \<lparr>func = Get_rank p, workers = Address w\<rparr>")
       (auto simp: pw lr submit_def rank_query_def split: option.splits sum.splits)
qed

lemma worker_ranks_values:
  "snd (worker_ranks c zs) = Some (Inr wr) \<Longrightarrow>
     wr = map (\<lambda>(p, w). (get_rank (comm_rank c (Address w)) p, w)) zs"
  by (induction zs arbitrary: wr)
     (auto simp: submit_def Let_def split: status.splits prod.splits option.splits sum.splits)

lemma worker_ranks_all_finished:
  "\<forall>pw\<in>set zs. outcome c (rank_query pw) = Finished \<Longrightarrow>
     worker_ranks c zs =
       (map (\<lambda>pw. Submit (rank_query pw)) zs,
        Some (Inr (map (\<lambda>(p, w). (get_rank (comm_rank c (Address w)) p, w)) zs)))"
  by (induction zs) (auto simp: submit_def rank_query_def Let_def)

lemma worker_ranks_stops:
  "\<forall>pw\<in>set pre. outcome c (rank_query pw) = Finished \<Longrightarrow>
   outcome c (rank_query (p, w)) \<noteq> Finished \<Longrightarrow>
     worker_ranks c (pre @ (p, w) # post) =
       (map (\<lambda>pw. Submit (rank_query pw)) (pre @ [(p, w)]),
        if outcome c (rank_query (p, w)) = Pending then None else Some (Inl TaskError))"
proof (induction pre)
  case Nil
  then show ?case
    by (cases "outcome c \<lparr>func = Get_rank p, workers = Address w\<rparr>")
       (simp_all add: submit_def rank_query_def)
next
  case (Cons a pre)
  obtain q v where a: "a = (q, v)" by (cases a)
  from Cons.prems have "outcome c \<lparr>func = Get_rank q, workers = Address v\<rparr> = Finished"
    by (simp add: a rank_query_def)
  with Cons show ?case by (simp add: a submit_def rank_query_def)
qed

lemma parts_to_worker_map_error:
  "parts_to_worker_map d ips = Inl e \<Longrightarrow> e = KeyError"
  by (induction ips arbitrary: e) (auto split: option.splits sum.splits)

lemma parts_to_worker_map_ok:
  "(\<exists>pw. parts_to_worker_map d ips = Inr pw) \<longleftrightarrow> (\<forall>i\<in>fst ` set ips. d (int i) \<noteq> None)"
  by (induction ips) (auto split: option.splits sum.splits)

lemma parts_to_worker_map_value:
  "parts_to_worker_map d ips = Inr pw \<Longrightarrow>
     pw = map (\<lambda>(i, part). (part, the (d (int i)))) ips"
  by (induction ips arbitrary: pw) (auto split: option.splits sum.splits)

lemma get_mg_info_locality_fails:
  "locality c parts = Inl e \<Longrightarrow> get_mg_info c parts = ([], Some (Inl e))"
  by (simp add: get_mg_info_def locality_def)

lemma get_mg_info_ranks_fail:
  "locality c parts = Inr wm \<Longrightarrow> worker_ranks c (zip parts (has_what c)) = (log, r) \<Longrightarrow>
   \<forall>wr. r \<noteq> Some (Inr wr) \<Longrightarrow>
   get_mg_info c parts = (log, map_option (map_sum id (\<lambda>wr. [])) r)"
  by (auto simp: get_mg_info_def locality_def split: option.splits sum.splits)

lemma get_mg_info_pairing_fails:
  "locality c parts = Inr wm \<Longrightarrow>
   worker_ranks c (zip parts (has_what c)) = (log, Some (Inr wr)) \<Longrightarrow>
   parts_to_worker_map (dict wr) (enumerate 0 parts) = Inl e \<Longrightarrow>
   get_mg_info c parts = (log, Some (Inl e))"
  by (simp add: get_mg_info_def locality_def)

lemma get_mg_info_dispatch:
  "locality c parts = Inr wm \<Longrightarrow>
   worker_ranks c (zip parts (has_what c)) = (log, Some (Inr wr)) \<Longrightarrow>
   parts_to_worker_map (dict wr) (enumerate 0 parts) = Inr pw \<Longrightarrow>
   get_mg_info c parts =
     (log @ [Reduce_max 0, Reduce_max 1] @ map (\<lambda>x. Submit (compute_task parts x)) pw,
      if list_all (\<lambda>x. outcome c (compute_task parts x) \<noteq> Pending) pw
      then Some (Inr (map (\<lambda>x. (compute_task parts x, outcome c (compute_task parts x))) pw))
      else None)"
  by (simp add: get_mg_info_def locality_def submit_def wait_def compute_task_def
      list_all_iff comp_def case_prod_unfold)

lemma rank_query_not_compute:
  "ev \<in> set (fst (worker_ranks c zs)) \<Longrightarrow> ev = Submit t \<Longrightarrow> func t \<noteq> Mg_pagerank part nv"
  using worker_ranks_log [of c zs] by (auto simp: rank_query_def)

lemma compute_submitted_cases:
  assumes "Submit t \<in> set (fst (get_mg_info c parts))" "func t = Mg_pagerank part nv"
  obtains wm log wr pw x where "locality c parts = Inr wm"
    "worker_ranks c (zip parts (has_what c)) = (log, Some (Inr wr))"
    "parts_to_worker_map (dict wr) (enumerate 0 parts) = Inr pw"
    "x \<in> set pw" "t = compute_task parts x"
proof (cases "locality c parts")
  case (Inl e)
  with assms show ?thesis by (simp add: get_mg_info_locality_fails)
next
  case (Inr wm)
  obtain log r where lr: "worker_ranks c (zip parts (has_what c)) = (log, r)"
    by (cases "worker_ranks c (zip parts (has_what c))")
  have nolog: "Submit t \<notin> set log"
    using rank_query_not_compute [of "Submit t" c "zip parts (has_what c)" t part nv] assms(2) lr
    by auto
  show ?thesis
  proof (cases "\<exists>wr. r = Some (Inr wr)")
    case False
    with Inr lr have "fst (get_mg_info c parts) = log"
      using get_mg_info_ranks_fail [of c parts wm log r] by simp
    with assms(1) nolog show ?thesis by simp
  next
    case True
    then obtain wr where r: "r = Some (Inr wr)" by blast
    show ?thesis
    proof (cases "parts_to_worker_map (dict wr) (enumerate 0 parts)")
      case (Inl e)
      with Inr lr r have "get_mg_info c parts = (log, Some (Inl e))"
        by (intro get_mg_info_pairing_fails) auto
      with assms(1) nolog show ?thesis by simp
    next
      case pw: (Inr pw)
      from get_mg_info_dispatch [OF Inr lr [unfolded r] pw] assms(1) nolog
      obtain x where "x \<in> set pw" "t = compute_task parts x" by auto
      with Inr lr r pw that show ?thesis by blast
    qed
  qed
qed

lemma pairing_ok_iff:
  "(\<exists>pw. parts_to_worker_map d (enumerate 0 parts) = Inr pw) \<longleftrightarrow>
     (\<forall>i<length parts. d (int i) \<noteq> None)"
proof -
  have "set (map fst (enumerate 0 parts)) = {0..<length parts}"
    by (simp only: map_fst_enumerate set_upt add_0)
  then have "fst ` set (enumerate 0 parts) = {0..<length parts}" by (simp only: set_map)
  then show ?thesis using parts_to_worker_map_ok [of d "enumerate 0 parts"] by auto
qed


section \<open>Dispatch: claim C1\<close>

text \<open>
  Claim C1, as the specification states it, fails on the code. In this round the
  data-location report says that \<open>part_a\<close> is held by the worker at \<open>10.0.0.2\<close>, and the
  locality step records that worker for it; the compute task for \<open>part_a\<close> is submitted
  pinned to the worker at \<open>10.0.0.1\<close>, which is the worker that reports rank 0.
\<close>

theorem dispatch_ignores_locality:
  "locality cluster_swapped [part_a, part_b] =
      Inr [((''10.0.0.2'', 8786), part_a), ((''10.0.0.1'', 8786), part_b)]
   \<and> get_mg_info cluster_swapped [part_a, part_b] =
      ([Submit \<lparr>func = Get_rank part_a, workers = Address ''tcp://10.0.0.1:8786''\<rparr>,
        Submit \<lparr>func = Get_rank part_b, workers = Address ''tcp://10.0.0.2:8786''\<rparr>,
        Reduce_max 0, Reduce_max 1,
        Submit \<lparr>func = Mg_pagerank part_a (Int64 4), workers = Address ''tcp://10.0.0.1:8786''\<rparr>,
        Submit \<lparr>func = Mg_pagerank part_b (Int64 4), workers = Address ''tcp://10.0.0.2:8786''\<rparr>],
       Some (Inr
         [(\<lparr>func = Mg_pagerank part_a (Int64 4), workers = Address ''tcp://10.0.0.1:8786''\<rparr>, Finished),
          (\<lparr>func = Mg_pagerank part_b (Int64 4), workers = Address ''tcp://10.0.0.2:8786''\<rparr>, Finished)]))
   \<and> parse_host_port ''tcp://10.0.0.1:8786'' = Inr (''10.0.0.1'', 8786)"
  by code_simp

text \<open>
  Claim C1, amended to what the code does. In every round, every dispatched compute task
  is the task of the partition at some index \<open>i\<close>, it passes that partition and the global
  vertex count as arguments, and it is pinned to an address of the worker registry whose
  worker answered the rank query with rank \<open>i\<close>. The list built from the data-location
  report has no part in the choice.
\<close>

theorem dispatch_pinned_by_rank:
  assumes "Submit t \<in> set (fst (get_mg_info c parts))" "func t = Mg_pagerank part nv"
  shows "\<exists>i<length parts. \<exists>w p. part = parts ! i \<and> nv = num_vertices parts
           \<and> workers t = Address w \<and> (p, w) \<in> set (zip parts (has_what c))
           \<and> get_rank (comm_rank c (Address w)) p = int i"
proof -
  from assms obtain wm :: "((string \<times> int) \<times> partition) list" and log wr pw x where
    ranks: "worker_ranks c (zip parts (has_what c)) = (log, Some (Inr wr))"
    and pw: "parts_to_worker_map (dict wr) (enumerate 0 parts) = Inr pw"
    and x: "x \<in> set pw" "t = compute_task parts x"
    by (rule compute_submitted_cases)
  from pw have pwv: "pw = map (\<lambda>(i, part). (part, the (dict wr (int i)))) (enumerate 0 parts)"
    by (rule parts_to_worker_map_value)
  with x(1) obtain i where i: "i < length parts" "x = (parts ! i, the (dict wr (int i)))"
    by (auto simp: in_set_enumerate_eq)
  from pw have "\<forall>i<length parts. dict wr (int i) \<noteq> None"
    using pairing_ok_iff [of "dict wr" parts] by blast
  with i(1) obtain w where w: "dict wr (int i) = Some w" by auto
  then have "(int i, w) \<in> set wr" by (rule dict_Some_mem)
  moreover from ranks have "wr = map (\<lambda>(p, w). (get_rank (comm_rank c (Address w)) p, w))
      (zip parts (has_what c))"
    using worker_ranks_values [of c "zip parts (has_what c)" wr] by simp
  ultimately obtain p where "(p, w) \<in> set (zip parts (has_what c))"
    "get_rank (comm_rank c (Address w)) p = int i" by auto
  moreover from x(2) i(2) w assms(2) have "part = parts ! i" "nv = num_vertices parts"
    "workers t = Address w" by (simp_all add: compute_task_def)
  ultimately show ?thesis using i(1) by blast
qed

text \<open>Claim C1, the amended statement at the second compute task of the example round.\<close>

theorem dispatch_pinned_by_rank_witness:
  "Submit \<lparr>func = Mg_pagerank part_b (Int64 4), workers = Address ''tcp://10.0.0.2:8786''\<rparr>
      \<in> set (fst (get_mg_info cluster_ab [part_a, part_b]))
   \<and> (\<exists>i<length [part_a, part_b]. \<exists>w p. part_b = [part_a, part_b] ! i
         \<and> Int64 4 = num_vertices [part_a, part_b]
         \<and> Address ''tcp://10.0.0.2:8786'' = Address w
         \<and> (p, w) \<in> set (zip [part_a, part_b] (has_what cluster_ab))
         \<and> get_rank (comm_rank cluster_ab (Address w)) p = int i)"
proof -
  have h: "Submit \<lparr>func = Mg_pagerank part_b (Int64 4), workers = Address ''tcp://10.0.0.2:8786''\<rparr>
      \<in> set (fst (get_mg_info cluster_ab [part_a, part_b]))"
    by code_simp
  from dispatch_pinned_by_rank [OF h, of part_b "Int64 4"] h show ?thesis by simp
qed

section \<open>Properties of the reduction\<close>


















section \<open>The global vertex count: claim C2\<close>




section \<open>A partition without holders: claim C3\<close>

text \<open>
  Claim C3, as the specification states it, fails on the code. The second partition of this
  round reports no holder, and the round does fail before anything is submitted; but the
  error is the \<^verbatim>\<open>ValueError\<close> of the first partition, whose holder address has more than
  one colon, and not the error of the empty holder list.
\<close>

theorem zero_holders_other_error:
  "(''b'', []) \<in> set (who_has cluster_ipv6_lost (map key [part_a, part_b]))
   \<and> get_mg_info cluster_ipv6_lost [part_a, part_b] = ([], Some (Inl ValueError))"
  by code_simp

text \<open>
  Claim C3, amended to what the code does. For every round in which the data-location
  report has a partition with no holders, the round raises an error to the caller, and
  nothing has been submitted or computed by then: no rank query, no reduction, no compute
  task. The error is the \<^verbatim>\<open>StopIteration\<close> that \<^verbatim>\<open>first\<close> raises on the empty holder list
  (the specification's \<open>NoHolderFound\<close>) whenever the entries that the report lists before
  that partition pass the locality step; otherwise it is the error of an earlier entry.
\<close>

theorem zero_holders_round_fails:
  assumes "(k, []) \<in> set (who_has c (map key parts))"
  shows "(\<exists>e. get_mg_info c parts = ([], Some (Inl e)))
     \<and> (\<forall>pre post. who_has c (map key parts) = pre @ (k, []) # post
            \<and> \<not> isl (worker_map (dict (map (\<lambda>part. (key part, part)) parts)) pre)
          \<longrightarrow> get_mg_info c parts = ([], Some (Inl StopIteration)))"
proof -
  define d where "d = dict (map (\<lambda>part. (key part, part)) parts)"
  have step: "locality c parts = (case worker_map d pre of Inl e \<Rightarrow> Inl e | Inr wm \<Rightarrow> Inl StopIteration)"
    if "who_has c (map key parts) = pre @ (k, []) # post" for pre post
    using that by (simp add: locality_def d_def worker_map_zero_holders)
  from assms obtain pre post where "who_has c (map key parts) = pre @ (k, []) # post"
    by (auto dest: split_list)
  from step [OF this] obtain e where "locality c parts = Inl e"
    by (cases "worker_map d pre") auto
  then have first: "\<exists>e. get_mg_info c parts = ([], Some (Inl e))"
    by (auto dest: get_mg_info_locality_fails)
  have second: "get_mg_info c parts = ([], Some (Inl StopIteration))"
    if "who_has c (map key parts) = pre @ (k, []) # post" "\<not> isl (worker_map d pre)" for pre post
  proof -
    from that(2) obtain wm where "worker_map d pre = Inr wm" by (cases "worker_map d pre") auto
    with step [OF that(1)] have "locality c parts = Inl StopIteration" by simp
    then show ?thesis by (rule get_mg_info_locality_fails)
  qed
  from first second show ?thesis unfolding d_def by blast
qed

text \<open>Claim C3, the amended statement at a round whose second partition has no holder.\<close>

theorem zero_holders_round_fails_witness:
  "(''b'', []) \<in> set (who_has cluster_lost (map key [part_a, part_b]))
   \<and> get_mg_info cluster_lost [part_a, part_b] = ([], Some (Inl StopIteration))"
proof -
  have h: "(''b'', []) \<in> set (who_has cluster_lost (map key [part_a, part_b]))"
    by (simp add: cluster_lost_def cluster_ab_def)
  have s: "who_has cluster_lost (map key [part_a, part_b]) =
      [(''a'', [''tcp://10.0.0.1:8786''])] @ (''b'', []) # []"
    by (simp add: cluster_lost_def cluster_ab_def)
  have ok: "\<not> isl (worker_map (dict (map (\<lambda>part. (key part, part)) [part_a, part_b]))
      [(''a'', [''tcp://10.0.0.1:8786''])])"
    by code_simp
  from zero_holders_round_fails [OF h] s ok
  have "get_mg_info cluster_lost [part_a, part_b] = ([], Some (Inl StopIteration))" by blast
  with h show ?thesis by simp
qed

section \<open>A rank query without an answer: claim C5\<close>

text \<open>
  Claim C5, as the specification states it, fails on the code. The second worker of this
  round never answers its rank query; the round does not fail with a timeout error, it
  never returns (\<open>None\<close>).
\<close>

theorem rank_query_never_times_out:
  "outcome cluster_silent (rank_query (part_b, ''tcp://10.0.0.2:8786'')) = Pending
   \<and> get_mg_info cluster_silent [part_a, part_b] =
      ([Submit \<lparr>func = Get_rank part_a, workers = Address ''tcp://10.0.0.1:8786''\<rparr>,
        Submit \<lparr>func = Get_rank part_b, workers = Address ''tcp://10.0.0.2:8786''\<rparr>], None)"
  by code_simp

text \<open>
  Claim C5, amended to what the code does. The rank query has no timeout. If the locality
  step has passed, the queries before it have been answered and a worker does not finish
  its pinned rank query, then nothing is submitted after that query, and the round blocks
  for ever when the query stays pending; when the query ended in error the round raises
  that task's error.
\<close>

theorem unanswered_rank_query_blocks:
  assumes "locality c parts = Inr wm"
    and "zip parts (has_what c) = pre @ (p, w) # post"
    and "\<forall>pw\<in>set pre. outcome c (rank_query pw) = Finished"
    and "outcome c (rank_query (p, w)) \<noteq> Finished"
  shows "get_mg_info c parts =
     (map (\<lambda>pw. Submit (rank_query pw)) (pre @ [(p, w)]),
      if outcome c (rank_query (p, w)) = Pending then None else Some (Inl TaskError))"
proof -
  from assms(3,4) have "worker_ranks c (pre @ (p, w) # post) =
       (map (\<lambda>pw. Submit (rank_query pw)) (pre @ [(p, w)]),
        if outcome c (rank_query (p, w)) = Pending then None else Some (Inl TaskError))"
    by (rule worker_ranks_stops)
  with assms(1,2) show ?thesis
    using get_mg_info_ranks_fail [of c parts wm _ "if outcome c (rank_query (p, w)) = Pending then None else Some (Inl TaskError)"]
    by simp
qed

text \<open>Claim C5, the amended statement at the round whose second worker never answers.\<close>

theorem unanswered_rank_query_blocks_witness:
  "locality cluster_silent [part_a, part_b] =
      Inr [((''10.0.0.1'', 8786), part_a), ((''10.0.0.2'', 8786), part_b)]
   \<and> outcome cluster_silent (rank_query (part_b, ''tcp://10.0.0.2:8786'')) \<noteq> Finished
   \<and> get_mg_info cluster_silent [part_a, part_b] =
      (map (\<lambda>pw. Submit (rank_query pw))
         [(part_a, ''tcp://10.0.0.1:8786''), (part_b, ''tcp://10.0.0.2:8786'')], None)"
proof -
  have l: "locality cluster_silent [part_a, part_b] =
      Inr [((''10.0.0.1'', 8786), part_a), ((''10.0.0.2'', 8786), part_b)]"
    by code_simp
  have z: "zip [part_a, part_b] (has_what cluster_silent) =
      [(part_a, ''tcp://10.0.0.1:8786'')] @ (part_b, ''tcp://10.0.0.2:8786'') # []"
    by (simp add: cluster_silent_def cluster_ab_def)
  have f: "\<forall>pw\<in>set [(part_a, ''tcp://10.0.0.1:8786'')]. outcome cluster_silent (rank_query pw) = Finished"
    by (simp add: cluster_silent_def cluster_ab_def rank_query_def part_a_def part_b_def)
  have n: "outcome cluster_silent (rank_query (part_b, ''tcp://10.0.0.2:8786'')) = Pending"
    by (simp add: cluster_silent_def)
  from unanswered_rank_query_blocks [OF l z f] n l show ?thesis by simp
qed


section \<open>Properties of the rank table and of the result collector\<close>

lemma map_snd_worker_ranks:
  assumes "snd (worker_ranks c (zip parts x)) = Some (Inr wr)"
  shows "wr = map (\<lambda>w. (comm_rank c (Address w), w)) (take (length parts) x)"
proof -
  from assms have "wr = map (\<lambda>(p, w). (get_rank (comm_rank c (Address w)) p, w)) (zip parts x)"
    by (rule worker_ranks_values)
  also have "\<dots> = map (\<lambda>w. (comm_rank c (Address w), w)) (map snd (zip parts x))"
    by (simp add: get_rank_def case_prod_unfold)
  also have "map snd (zip parts x) = take (length parts) x"
    by (simp add: map_snd_zip_take min_def)
  finally show ?thesis .
qed


lemma reported_ranks_cover:
  assumes wr: "snd (worker_ranks c (zip parts x)) = Some (Inr wr)"
    and sub: "int ` {..<length parts} \<subseteq> fst ` set wr"
  shows "fst ` set wr = int ` {..<length parts}" and "length parts \<le> length x"
proof -
  from wr have "wr = map (\<lambda>w. (comm_rank c (Address w), w)) (take (length parts) x)"
    by (rule map_snd_worker_ranks)
  then have len: "length wr = min (length parts) (length x)" by simp
  have "card (fst ` set wr) \<le> card (set wr)" by (rule card_image_le) simp
  also have "\<dots> \<le> length wr" by (rule card_length)
  finally have le: "card (fst ` set wr) \<le> min (length parts) (length x)" by (simp only: len)
  have cI: "card (int ` {..<length parts}) = length parts" by (simp add: card_image)
  from sub have "card (int ` {..<length parts}) \<le> card (fst ` set wr)"
    by (intro card_mono) simp_all
  with le cI show "length parts \<le> length x" by simp
  from le cI have "card (fst ` set wr) \<le> card (int ` {..<length parts})" by simp
  with sub show "fst ` set wr = int ` {..<length parts}"
    by (intro card_seteq [symmetric]) simp_all
qed

lemma print_data_locality_fails:
  "locality c parts = Inl e \<Longrightarrow> print_data c parts = ([], Some (Inl e))"
  by (simp add: print_data_def locality_def)

lemma print_data_dispatch:
  "locality c parts = Inr wm \<Longrightarrow>
   print_data c parts =
     (map (\<lambda>x. Submit (fst (submit c (Print_data (snd x)) (Host_port (fst x))))) wm,
      if list_all (\<lambda>x. snd (submit c (Print_data (snd x)) (Host_port (fst x))) \<noteq> Pending) wm
      then Some (Inr (map (\<lambda>x. submit c (Print_data (snd x)) (Host_port (fst x))) wm))
      else None)"
  by (simp add: print_data_def locality_def wait_def list_all_iff comp_def case_prod_unfold)

lemma print_data_result:
  "locality c results = Inr wm \<Longrightarrow>
   print_data c results =
     (map (\<lambda>x. Submit (print_task x)) wm,
      if list_all (\<lambda>x. outcome c (print_task x) \<noteq> Pending) wm
      then Some (Inr (map (\<lambda>x. (print_task x, outcome c (print_task x))) wm))
      else None)"
  by (simp add: print_data_dispatch submit_def print_task_def)

section \<open>The barrier: claim C4\<close>

text \<open>
  Claim C4, as the specification states it, fails on the code. The compute task of the
  second partition of this round ends in error; the round raises nothing, it returns the
  two handles, the second one in the status \<open>Erred\<close>.
\<close>

theorem failed_task_not_raised:
  "outcome cluster_failing
      \<lparr>func = Mg_pagerank part_b (Int64 4), workers = Address ''tcp://10.0.0.2:8786''\<rparr> = Erred
   \<and> get_mg_info cluster_failing [part_a, part_b] =
      ([Submit \<lparr>func = Get_rank part_a, workers = Address ''tcp://10.0.0.1:8786''\<rparr>,
        Submit \<lparr>func = Get_rank part_b, workers = Address ''tcp://10.0.0.2:8786''\<rparr>,
        Reduce_max 0, Reduce_max 1,
        Submit \<lparr>func = Mg_pagerank part_a (Int64 4), workers = Address ''tcp://10.0.0.1:8786''\<rparr>,
        Submit \<lparr>func = Mg_pagerank part_b (Int64 4), workers = Address ''tcp://10.0.0.2:8786''\<rparr>],
       Some (Inr
         [(\<lparr>func = Mg_pagerank part_a (Int64 4), workers = Address ''tcp://10.0.0.1:8786''\<rparr>, Finished),
          (\<lparr>func = Mg_pagerank part_b (Int64 4), workers = Address ''tcp://10.0.0.2:8786''\<rparr>, Erred)]))"
  by code_simp

text \<open>
  Claim C4, amended to what the code does. The barrier returns only when every handle has
  resolved, to success or to failure, and does not return while a handle is pending. It
  raises nothing for a handle that failed: once a compute task has been dispatched the
  round never raises, it returns as soon as nothing it submitted is pending, and it returns
  the handle of every dispatched task with its final status. The same holds for the
  barrier of \<^verbatim>\<open>print_data\<close>: it submits one print task for every entry of the locality
  step, its only errors come from the locality step, before anything is submitted, it
  does not return while a print task is pending, and otherwise it returns the handles of
  exactly the tasks it submitted, each with its final status.
\<close>

theorem barrier_raises_nothing:
  "(Submit t \<in> set (fst (get_mg_info c parts)) \<and> func t = Mg_pagerank part nv \<longrightarrow>
      (\<forall>e. snd (get_mg_info c parts) \<noteq> Some (Inl e))
      \<and> (outcome c t = Pending \<longrightarrow> snd (get_mg_info c parts) = None)
      \<and> (\<forall>futs. snd (get_mg_info c parts) = Some (Inr futs) \<longrightarrow>
           (t, outcome c t) \<in> set futs
           \<and> (\<forall>fut\<in>set futs. snd fut = outcome c (fst fut) \<and> snd fut \<noteq> Pending))
      \<and> ((\<forall>t'. Submit t' \<in> set (fst (get_mg_info c parts)) \<longrightarrow> outcome c t' \<noteq> Pending) \<longrightarrow>
           (\<exists>futs. snd (get_mg_info c parts) = Some (Inr futs))))
   \<and> (\<forall>futs. snd (print_data c results) = Some (Inr futs) \<longrightarrow>
         fst (print_data c results) = map (\<lambda>fut. Submit (fst fut)) futs
         \<and> (\<forall>fut\<in>set futs. snd fut = outcome c (fst fut) \<and> snd fut \<noteq> Pending))
   \<and> (\<forall>u. Submit u \<in> set (fst (print_data c results)) \<longrightarrow>
         (\<forall>e. snd (print_data c results) \<noteq> Some (Inl e))
         \<and> (outcome c u = Pending \<longrightarrow> snd (print_data c results) = None))
   \<and> (\<forall>wm. locality c results = Inr wm \<longrightarrow>
         fst (print_data c results) = map (\<lambda>x. Submit (print_task x)) wm
         \<and> ((\<forall>u. Submit u \<in> set (fst (print_data c results)) \<longrightarrow> outcome c u \<noteq> Pending) \<longrightarrow>
              snd (print_data c results) =
                Some (Inr (map (\<lambda>x. (print_task x, outcome c (print_task x))) wm))))
   \<and> (\<forall>e. locality c results = Inl e \<longrightarrow> print_data c results = ([], Some (Inl e)))
   \<and> (\<forall>e. snd (print_data c results) = Some (Inl e) \<longrightarrow> fst (print_data c results) = [])"
proof -
  have round: "(\<forall>e. snd (get_mg_info c parts) \<noteq> Some (Inl e))
      \<and> (outcome c t = Pending \<longrightarrow> snd (get_mg_info c parts) = None)
      \<and> (\<forall>futs. snd (get_mg_info c parts) = Some (Inr futs) \<longrightarrow>
           (t, outcome c t) \<in> set futs
           \<and> (\<forall>fut\<in>set futs. snd fut = outcome c (fst fut) \<and> snd fut \<noteq> Pending))
      \<and> ((\<forall>t'. Submit t' \<in> set (fst (get_mg_info c parts)) \<longrightarrow> outcome c t' \<noteq> Pending) \<longrightarrow>
           (\<exists>futs. snd (get_mg_info c parts) = Some (Inr futs)))"
    if sub: "Submit t \<in> set (fst (get_mg_info c parts))" and f: "func t = Mg_pagerank part nv"
  proof -
    from sub f obtain wm :: "((string \<times> int) \<times> partition) list" and log wr pw x where
      loc: "locality c parts = Inr wm"
      and ranks: "worker_ranks c (zip parts (has_what c)) = (log, Some (Inr wr))"
      and pw: "parts_to_worker_map (dict wr) (enumerate 0 parts) = Inr pw"
      and x: "x \<in> set pw" "t = compute_task parts x"
      by (rule compute_submitted_cases)
    note r = get_mg_info_dispatch [OF loc ranks pw]
    have a: "\<forall>e. snd (get_mg_info c parts) \<noteq> Some (Inl e)"
      by (simp add: r)
    have b: "outcome c t = Pending \<longrightarrow> snd (get_mg_info c parts) = None"
      using x by (auto simp: r list_all_iff)
    have c: "\<forall>futs. snd (get_mg_info c parts) = Some (Inr futs) \<longrightarrow>
          (t, outcome c t) \<in> set futs
          \<and> (\<forall>fut\<in>set futs. snd fut = outcome c (fst fut) \<and> snd fut \<noteq> Pending)"
      using x by (auto simp: r list_all_iff split: if_splits)
    have d: "(\<forall>t'. Submit t' \<in> set (fst (get_mg_info c parts)) \<longrightarrow> outcome c t' \<noteq> Pending) \<longrightarrow>
           (\<exists>futs. snd (get_mg_info c parts) = Some (Inr futs))"
      by (auto simp: r list_all_iff)
    from a b c d show ?thesis by (intro conjI)
  qed
  have collector: "(\<forall>futs. snd (print_data c results) = Some (Inr futs) \<longrightarrow>
         fst (print_data c results) = map (\<lambda>fut. Submit (fst fut)) futs
         \<and> (\<forall>fut\<in>set futs. snd fut = outcome c (fst fut) \<and> snd fut \<noteq> Pending))
   \<and> (\<forall>u. Submit u \<in> set (fst (print_data c results)) \<longrightarrow>
         (\<forall>e. snd (print_data c results) \<noteq> Some (Inl e))
         \<and> (outcome c u = Pending \<longrightarrow> snd (print_data c results) = None))
   \<and> (\<forall>wm. locality c results = Inr wm \<longrightarrow>
         fst (print_data c results) = map (\<lambda>x. Submit (print_task x)) wm
         \<and> ((\<forall>u. Submit u \<in> set (fst (print_data c results)) \<longrightarrow> outcome c u \<noteq> Pending) \<longrightarrow>
              snd (print_data c results) =
                Some (Inr (map (\<lambda>x. (print_task x, outcome c (print_task x))) wm))))
   \<and> (\<forall>e. locality c results = Inl e \<longrightarrow> print_data c results = ([], Some (Inl e)))
   \<and> (\<forall>e. snd (print_data c results) = Some (Inl e) \<longrightarrow> fst (print_data c results) = [])"
  proof (cases "locality c results")
    case (Inl e)
    then show ?thesis by (simp add: print_data_locality_fails)
  next
    case (Inr wm)
    note r = print_data_result [OF Inr]
    have p1: "\<forall>futs. snd (print_data c results) = Some (Inr futs) \<longrightarrow>
         fst (print_data c results) = map (\<lambda>fut. Submit (fst fut)) futs
         \<and> (\<forall>fut\<in>set futs. snd fut = outcome c (fst fut) \<and> snd fut \<noteq> Pending)"
      by (auto simp: r list_all_iff comp_def split: if_splits)
    have p2: "\<forall>u. Submit u \<in> set (fst (print_data c results)) \<longrightarrow>
         (\<forall>e. snd (print_data c results) \<noteq> Some (Inl e))
         \<and> (outcome c u = Pending \<longrightarrow> snd (print_data c results) = None)"
      by (auto simp: r list_all_iff)
    have p3: "fst (print_data c results) = map (\<lambda>x. Submit (print_task x)) wm
         \<and> ((\<forall>u. Submit u \<in> set (fst (print_data c results)) \<longrightarrow> outcome c u \<noteq> Pending) \<longrightarrow>
              snd (print_data c results) =
                Some (Inr (map (\<lambda>x. (print_task x, outcome c (print_task x))) wm)))"
      by (auto simp: r list_all_iff)
    have p5: "\<forall>e. snd (print_data c results) = Some (Inl e) \<longrightarrow> fst (print_data c results) = []"
      by (simp add: r)
    have p4: "\<forall>e. locality c results = Inl e \<longrightarrow> print_data c results = ([], Some (Inl e))"
      by (simp add: Inr)
    have p3': "\<forall>wm'. locality c results = Inr wm' \<longrightarrow>
         fst (print_data c results) = map (\<lambda>x. Submit (print_task x)) wm'
         \<and> ((\<forall>u. Submit u \<in> set (fst (print_data c results)) \<longrightarrow> outcome c u \<noteq> Pending) \<longrightarrow>
              snd (print_data c results) =
                Some (Inr (map (\<lambda>x. (print_task x, outcome c (print_task x))) wm')))"
      using p3 by (simp add: Inr)
    from p1 p2 p3' p4 p5 show ?thesis by (intro conjI)
  qed
  show ?thesis
  proof (rule conjI)
    show "Submit t \<in> set (fst (get_mg_info c parts)) \<and> func t = Mg_pagerank part nv \<longrightarrow>
      (\<forall>e. snd (get_mg_info c parts) \<noteq> Some (Inl e))
      \<and> (outcome c t = Pending \<longrightarrow> snd (get_mg_info c parts) = None)
      \<and> (\<forall>futs. snd (get_mg_info c parts) = Some (Inr futs) \<longrightarrow>
           (t, outcome c t) \<in> set futs
           \<and> (\<forall>fut\<in>set futs. snd fut = outcome c (fst fut) \<and> snd fut \<noteq> Pending))
      \<and> ((\<forall>t'. Submit t' \<in> set (fst (get_mg_info c parts)) \<longrightarrow> outcome c t' \<noteq> Pending) \<longrightarrow>
           (\<exists>futs. snd (get_mg_info c parts) = Some (Inr futs)))"
    proof (intro impI, elim conjE)
      assume "Submit t \<in> set (fst (get_mg_info c parts))" "func t = Mg_pagerank part nv"
      then show "(\<forall>e. snd (get_mg_info c parts) \<noteq> Some (Inl e))
      \<and> (outcome c t = Pending \<longrightarrow> snd (get_mg_info c parts) = None)
      \<and> (\<forall>futs. snd (get_mg_info c parts) = Some (Inr futs) \<longrightarrow>
           (t, outcome c t) \<in> set futs
           \<and> (\<forall>fut\<in>set futs. snd fut = outcome c (fst fut) \<and> snd fut \<noteq> Pending))
      \<and> ((\<forall>t'. Submit t' \<in> set (fst (get_mg_info c parts)) \<longrightarrow> outcome c t' \<noteq> Pending) \<longrightarrow>
           (\<exists>futs. snd (get_mg_info c parts) = Some (Inr futs)))"
        by (rule round)
    qed
  qed (rule collector)
qed

text \<open>
  Claim C4, the amended statement at the round whose second compute task fails, and at the
  collector run whose second print task fails.
\<close>

theorem barrier_raises_nothing_witness:
  "Submit (compute_task [part_a, part_b] (part_b, ''tcp://10.0.0.2:8786''))
      \<in> set (fst (get_mg_info cluster_failing [part_a, part_b]))
   \<and> snd (get_mg_info cluster_failing [part_a, part_b]) =
      Some (Inr [(compute_task [part_a, part_b] (part_a, ''tcp://10.0.0.1:8786''), Finished),
                 (compute_task [part_a, part_b] (part_b, ''tcp://10.0.0.2:8786''), Erred)])
   \<and> (compute_task [part_a, part_b] (part_b, ''tcp://10.0.0.2:8786''),
        outcome cluster_failing (compute_task [part_a, part_b] (part_b, ''tcp://10.0.0.2:8786'')))
      \<in> set [(compute_task [part_a, part_b] (part_a, ''tcp://10.0.0.1:8786''), Finished),
               (compute_task [part_a, part_b] (part_b, ''tcp://10.0.0.2:8786''), Erred)]
   \<and> locality cluster_print_failing [part_a, part_b] =
      Inr [((''10.0.0.1'', 8786), part_a), ((''10.0.0.2'', 8786), part_b)]
   \<and> outcome cluster_print_failing (print_task ((''10.0.0.2'', 8786), part_b)) = Erred
   \<and> print_data cluster_print_failing [part_a, part_b] =
      ([Submit (print_task ((''10.0.0.1'', 8786), part_a)),
        Submit (print_task ((''10.0.0.2'', 8786), part_b))],
       Some (Inr [(print_task ((''10.0.0.1'', 8786), part_a), Finished),
                  (print_task ((''10.0.0.2'', 8786), part_b), Erred)]))"
proof -
  have h: "Submit (compute_task [part_a, part_b] (part_b, ''tcp://10.0.0.2:8786''))
      \<in> set (fst (get_mg_info cluster_failing [part_a, part_b]))"
    by code_simp
  have f: "func (compute_task [part_a, part_b] (part_b, ''tcp://10.0.0.2:8786'')) =
      Mg_pagerank part_b (num_vertices [part_a, part_b])"
    by (simp add: compute_task_def)
  have r: "snd (get_mg_info cluster_failing [part_a, part_b]) =
      Some (Inr [(compute_task [part_a, part_b] (part_a, ''tcp://10.0.0.1:8786''), Finished),
                 (compute_task [part_a, part_b] (part_b, ''tcp://10.0.0.2:8786''), Erred)])"
    by code_simp
  note round = barrier_raises_nothing [of "compute_task [part_a, part_b] (part_b, ''tcp://10.0.0.2:8786'')"
      cluster_failing "[part_a, part_b]" part_b "num_vertices [part_a, part_b]", THEN conjunct1,
      THEN mp, OF conjI [OF h f], THEN conjunct2, THEN conjunct2, THEN conjunct1,
      THEN spec, THEN mp, OF r, THEN conjunct1]
  from round have g: "(compute_task [part_a, part_b] (part_b, ''tcp://10.0.0.2:8786''),
        outcome cluster_failing (compute_task [part_a, part_b] (part_b, ''tcp://10.0.0.2:8786'')))
      \<in> set [(compute_task [part_a, part_b] (part_a, ''tcp://10.0.0.1:8786''), Finished),
               (compute_task [part_a, part_b] (part_b, ''tcp://10.0.0.2:8786''), Erred)]"
    .
  have l: "locality cluster_print_failing [part_a, part_b] =
      Inr [((''10.0.0.1'', 8786), part_a), ((''10.0.0.2'', 8786), part_b)]"
    by code_simp
  have o: "outcome cluster_print_failing (print_task ((''10.0.0.2'', 8786), part_b)) = Erred"
    by (simp add: cluster_print_failing_def)
  have np: "\<forall>u. outcome cluster_print_failing u \<noteq> Pending"
    by (simp add: cluster_print_failing_def)
  have oa: "outcome cluster_print_failing (print_task ((''10.0.0.1'', 8786), part_a)) = Finished"
    by (simp add: cluster_print_failing_def print_task_def part_a_def part_b_def)
  note coll = barrier_raises_nothing [of undefined cluster_print_failing "[]" undefined undefined
      "[part_a, part_b]", THEN conjunct2, THEN conjunct2, THEN conjunct2, THEN conjunct1,
      THEN spec, THEN mp, OF l]
  from coll np
  have "fst (print_data cluster_print_failing [part_a, part_b]) =
        map (\<lambda>x. Submit (print_task x)) [((''10.0.0.1'', 8786), part_a), ((''10.0.0.2'', 8786), part_b)]"
    and "snd (print_data cluster_print_failing [part_a, part_b]) =
        Some (Inr (map (\<lambda>x. (print_task x, outcome cluster_print_failing (print_task x)))
          [((''10.0.0.1'', 8786), part_a), ((''10.0.0.2'', 8786), part_b)]))"
    by blast+
  then have p: "print_data cluster_print_failing [part_a, part_b] =
      ([Submit (print_task ((''10.0.0.1'', 8786), part_a)),
        Submit (print_task ((''10.0.0.2'', 8786), part_b))],
       Some (Inr [(print_task ((''10.0.0.1'', 8786), part_a), Finished),
                  (print_task ((''10.0.0.2'', 8786), part_b), Erred)]))"
    using o oa by (simp add: prod_eq_iff)
  from h r g l o p show ?thesis by blast
qed

section \<open>The rank table: claims C6, C9 and C10\<close>




text \<open>
  Claim C9. \<^verbatim>\<open>get_rank\<close> returns the rank of the process whatever its argument is, so two
  lists of partitions of the same length, queried against the same registry, give the
  same list of self-reports and the same rank table.
\<close>

theorem get_rank_ignores_partition:
  "get_rank r l = get_rank r l'
   \<and> (length parts = length parts'
        \<and> snd (worker_ranks c (zip parts x)) = Some (Inr wr)
        \<and> snd (worker_ranks c (zip parts' x)) = Some (Inr wr')
      \<longrightarrow> wr = wr' \<and> dict wr = dict wr')"
  using map_snd_worker_ranks [of c parts x wr] map_snd_worker_ranks [of c parts' x wr']
  by (auto simp: get_rank_def)

text \<open>Claim C9, at two different lists of two partitions in the example cluster.\<close>

theorem get_rank_ignores_partition_witness:
  "length [part_a, part_b] = length [part_b, part_whole]
   \<and> snd (worker_ranks cluster_ab (zip [part_a, part_b] (has_what cluster_ab))) =
       Some (Inr [(0, ''tcp://10.0.0.1:8786''), (1, ''tcp://10.0.0.2:8786'')])
   \<and> snd (worker_ranks cluster_ab (zip [part_b, part_whole] (has_what cluster_ab))) =
       Some (Inr [(0, ''tcp://10.0.0.1:8786''), (1, ''tcp://10.0.0.2:8786'')])
   \<and> get_rank 1 part_a = get_rank 1 part_b"
proof -
  have a: "snd (worker_ranks cluster_ab (zip [part_a, part_b] (has_what cluster_ab))) =
       Some (Inr [(0, ''tcp://10.0.0.1:8786''), (1, ''tcp://10.0.0.2:8786'')])"
    by code_simp
  obtain wr' where b: "snd (worker_ranks cluster_ab (zip [part_b, part_whole] (has_what cluster_ab))) =
       Some (Inr wr')"
    by (simp add: cluster_ab_def submit_def)
  from get_rank_ignores_partition [of 1 part_a part_b "[part_a, part_b]" "[part_b, part_whole]"
      cluster_ab "has_what cluster_ab" "[(0, ''tcp://10.0.0.1:8786''), (1, ''tcp://10.0.0.2:8786'')]" wr'] a b
  have "get_rank 1 part_a = get_rank 1 part_b"
    and "[(0, ''tcp://10.0.0.1:8786''), (1, ''tcp://10.0.0.2:8786'')] = wr'" by simp_all
  with a b show ?thesis by simp
qed

text \<open>
  Claim C10. Suppose the locality step has passed and all rank queries have been answered.
  If the reported ranks cover the indices \<open>0\<close> to \<open>N - 1\<close> of the \<open>N\<close> partitions, then they
  are exactly these indices, the registry has at least \<open>N\<close> workers, and the round raises
  no error. If some index is missing, the round raises \<^verbatim>\<open>KeyError\<close> and no compute task
  has been submitted. A registry with fewer workers than partitions always leaves an index
  missing, since the queries are the zip of the partitions with the registry.
\<close>

theorem pairing_needs_ranks_of_all_indices:
  assumes loc: "locality c parts = Inr wm"
    and ranks: "worker_ranks c (zip parts (has_what c)) = (log, Some (Inr wr))"
  shows "(int ` {..<length parts} \<subseteq> fst ` set wr \<longrightarrow>
            fst ` set wr = int ` {..<length parts}
            \<and> length parts \<le> length (has_what c)
            \<and> (\<forall>e. snd (get_mg_info c parts) \<noteq> Some (Inl e)))
     \<and> (\<not> int ` {..<length parts} \<subseteq> fst ` set wr \<longrightarrow>
            get_mg_info c parts = (log, Some (Inl KeyError))
            \<and> (\<forall>t part nv. Submit t \<in> set log \<longrightarrow> func t \<noteq> Mg_pagerank part nv))
     \<and> (length (has_what c) < length parts \<longrightarrow>
            \<not> int ` {..<length parts} \<subseteq> fst ` set wr)"
proof -
  from ranks have sr: "snd (worker_ranks c (zip parts (has_what c))) = Some (Inr wr)" by simp
  have ok: "(\<exists>pw. parts_to_worker_map (dict wr) (enumerate 0 parts) = Inr pw) \<longleftrightarrow>
      int ` {..<length parts} \<subseteq> fst ` set wr"
    unfolding pairing_ok_iff dom_dict [symmetric] by (auto simp: dom_def)
  have covered: "fst ` set wr = int ` {..<length parts}
            \<and> length parts \<le> length (has_what c)
            \<and> (\<forall>e. snd (get_mg_info c parts) \<noteq> Some (Inl e))"
    if sub: "int ` {..<length parts} \<subseteq> fst ` set wr"
  proof -
    from sub ok obtain pw where "parts_to_worker_map (dict wr) (enumerate 0 parts) = Inr pw"
      by blast
    from get_mg_info_dispatch [OF loc ranks this]
    have "\<forall>e. snd (get_mg_info c parts) \<noteq> Some (Inl e)" by simp
    with reported_ranks_cover [OF sr sub] show ?thesis by simp
  qed
  have missing: "get_mg_info c parts = (log, Some (Inl KeyError))
            \<and> (\<forall>t part nv. Submit t \<in> set log \<longrightarrow> func t \<noteq> Mg_pagerank part nv)"
    if nsub: "\<not> int ` {..<length parts} \<subseteq> fst ` set wr"
  proof -
    from nsub ok obtain e where e: "parts_to_worker_map (dict wr) (enumerate 0 parts) = Inl e"
      by (cases "parts_to_worker_map (dict wr) (enumerate 0 parts)") auto
    then have "e = KeyError" by (rule parts_to_worker_map_error)
    with get_mg_info_pairing_fails [OF loc ranks e]
    have "get_mg_info c parts = (log, Some (Inl KeyError))" by simp
    moreover have "\<forall>t part nv. Submit t \<in> set log \<longrightarrow> func t \<noteq> Mg_pagerank part nv"
      using rank_query_not_compute [of _ c "zip parts (has_what c)"] ranks by auto
    ultimately show ?thesis by simp
  qed
  have short: "\<not> int ` {..<length parts} \<subseteq> fst ` set wr"
    if "length (has_what c) < length parts"
    using reported_ranks_cover(2) [OF sr] that by auto
  from covered missing short show ?thesis by blast
qed

text \<open>
  Claim C10, at the round with three workers and two partitions, where the index 1 is
  missing among the reported ranks 2 and 0.
\<close>

theorem pairing_needs_ranks_of_all_indices_witness:
  "locality cluster_three [part_a, part_b] =
      Inr [((''10.0.0.3'', 8786), part_a), ((''10.0.0.1'', 8786), part_b)]
   \<and> worker_ranks cluster_three (zip [part_a, part_b] (has_what cluster_three)) =
      (map (\<lambda>pw. Submit (rank_query pw))
         [(part_a, ''tcp://10.0.0.3:8786''), (part_b, ''tcp://10.0.0.1:8786'')],
       Some (Inr [(2, ''tcp://10.0.0.3:8786''), (0, ''tcp://10.0.0.1:8786'')]))
   \<and> \<not> int ` {..<length [part_a, part_b]}
         \<subseteq> fst ` set [(2::int, ''tcp://10.0.0.3:8786''), (0, ''tcp://10.0.0.1:8786'')]
   \<and> get_mg_info cluster_three [part_a, part_b] =
      (map (\<lambda>pw. Submit (rank_query pw))
         [(part_a, ''tcp://10.0.0.3:8786''), (part_b, ''tcp://10.0.0.1:8786'')],
       Some (Inl KeyError))"
proof -
  have l: "locality cluster_three [part_a, part_b] =
      Inr [((''10.0.0.3'', 8786), part_a), ((''10.0.0.1'', 8786), part_b)]"
    by code_simp
  have r: "worker_ranks cluster_three (zip [part_a, part_b] (has_what cluster_three)) =
      (map (\<lambda>pw. Submit (rank_query pw))
         [(part_a, ''tcp://10.0.0.3:8786''), (part_b, ''tcp://10.0.0.1:8786'')],
       Some (Inr [(2, ''tcp://10.0.0.3:8786''), (0, ''tcp://10.0.0.1:8786'')]))"
    by code_simp
  have n: "\<not> int ` {..<length [part_a, part_b]}
         \<subseteq> fst ` set [(2::int, ''tcp://10.0.0.3:8786''), (0, ''tcp://10.0.0.1:8786'')]"
    by (simp add: lessThan_Suc)
  from pairing_needs_ranks_of_all_indices [OF l r] n l r show ?thesis by blast
qed


end
